theory Spec2Isabelle
  imports Complex_Main "HOL-Library.Log_Nat"
begin

section \<open>Data model\<close>

text \<open>
  The types of \<^verbatim>\<open>lib/types\<close> that \<^verbatim>\<open>lib/computeDerived.ts\<close> reads and writes.
  A JavaScript number that counts something is an \<open>int\<close>, a measured quantity is a
  \<open>real\<close> (the value of the double); a value of type \<^verbatim>\<open>T | null\<close> is a \<open>T option\<close>. Fields that the
  functions below only copy (bounding box, pose, the four per-wrist rail flags, the four
  per-wrist distances, average confidence, file paths) are left out of the records.
\<close>

datatype ComplianceState = compliant | non_compliant | unknown_compliance

datatype PhoneState = phone | no_phone | unknown_phone

type_synonym StateTuple = "ComplianceState \<times> PhoneState"

record RailHitTestResult =
  any_hit :: bool

record PhoneHeuristicResult =
  min_distance :: real
  threshold :: real
  is_phone_talking :: bool

record PersonAnalysis =
  person_id :: int
  rail_hit_test :: "RailHitTestResult option"
  phone_heuristic :: "PhoneHeuristicResult option"

record FrameMetrics =
  total_persons :: int
  compliant_count :: int
  non_compliant_count :: int
  phone_count :: int

record StateMachineState =
  current_state :: StateTuple
  pending_state :: "StateTuple option"
  time_in_pending :: real
  debounce_threshold :: real

record FramePacket =
  frame_number :: int
  timestamp_sec :: real
  metrics :: FrameMetrics
  persons :: "PersonAnalysis list"
  state_machine :: "StateMachineState option"

text \<open>\<^verbatim>\<open>SimulatedEvent\<close>; its first two fields carry the prefix \<open>ev_\<close> because a
  frame packet has fields of the same names.\<close>

record SimulatedEvent =
  ev_frame_number :: int
  ev_timestamp_sec :: real
  old_state :: StateTuple
  new_state :: StateTuple
  event_type :: string

record SimulationStats =
  totalFrames :: int
  compliantFrames :: int
  nonCompliantFrames :: int
  phoneFrames :: int
  totalCommits :: int

text \<open>The object that \<^verbatim>\<open>simulateDebounce\<close> returns.\<close>

record SimulationResult =
  packets :: "FramePacket list"
  events :: "SimulatedEvent list"
  stats :: SimulationStats

text \<open>
  The local variables of \<^verbatim>\<open>simulateDebounce\<close> that its loop updates. The accumulators
  \<^verbatim>\<open>events\<close>, \<^verbatim>\<open>compliantFrames\<close>, \<^verbatim>\<open>nonCompliantFrames\<close> and \<^verbatim>\<open>phoneFrames\<close>
  carry the prefix \<open>acc_\<close>, their names being fields of the result.
\<close>

record LoopState =
  stableState :: StateTuple
  pendingState :: "StateTuple option"
  pendingFrameCount :: int
  acc_events :: "SimulatedEvent list"
  processedPackets :: "FramePacket list"
  acc_compliantFrames :: int
  acc_nonCompliantFrames :: int
  acc_phoneFrames :: int

text \<open>
  The module is an ES module, hence strict code: the assignment to the identifier
  \<^verbatim>\<open>commitEvent\<close>, which no scope declares, raises a \<^verbatim>\<open>ReferenceError\<close>.
\<close>

datatype error = ReferenceError

section \<open>Raw signal derivation\<close>

definition recomputePhoneForPerson :: "PhoneHeuristicResult option \<Rightarrow> real \<Rightarrow> bool" where
  "recomputePhoneForPerson phoneHeuristic newThreshold =
     (case phoneHeuristic of
        None \<Rightarrow> False
      | Some h \<Rightarrow> min_distance h < newThreshold)"

text \<open>The function mapped over \<^verbatim>\<open>packet.persons\<close>.\<close>

definition recomputePerson :: "real \<Rightarrow> PersonAnalysis \<Rightarrow> PersonAnalysis" where
  "recomputePerson phoneThreshold person =
     (let isPhone = recomputePhoneForPerson (phone_heuristic person) phoneThreshold
      in person\<lparr>phone_heuristic :=
           (case phone_heuristic person of
              None \<Rightarrow> None
            | Some h \<Rightarrow> Some (h\<lparr>is_phone_talking := isPhone, threshold := phoneThreshold\<rparr>))\<rparr>)"

text \<open>The predicates \<^verbatim>\<open>p.rail_hit_test?.any_hit\<close> and
  \<^verbatim>\<open>p.phone_heuristic?.is_phone_talking\<close>: \<^verbatim>\<open>undefined\<close> is falsy.\<close>

definition holdingRail :: "PersonAnalysis \<Rightarrow> bool" where
  "holdingRail p = (case rail_hit_test p of None \<Rightarrow> False | Some r \<Rightarrow> any_hit r)"

definition usingPhone :: "PersonAnalysis \<Rightarrow> bool" where
  "usingPhone p = (case phone_heuristic p of None \<Rightarrow> False | Some h \<Rightarrow> is_phone_talking h)"

definition recomputedPersons :: "real \<Rightarrow> FramePacket \<Rightarrow> PersonAnalysis list" where
  "recomputedPersons phoneThreshold packet =
     map (recomputePerson phoneThreshold) (persons packet)"

definition phoneCount :: "PersonAnalysis list \<Rightarrow> int" where
  "phoneCount ps = int (length (filter usingPhone ps))"

definition recomputeWithThreshold :: "FramePacket list \<Rightarrow> real \<Rightarrow> FramePacket list" where
  "recomputeWithThreshold pkts phoneThreshold =
     map (\<lambda>packet.
            let newPersons = recomputedPersons phoneThreshold packet
            in packet\<lparr>persons := newPersons,
                      metrics := (metrics packet)\<lparr>phone_count := phoneCount newPersons\<rparr>\<rparr>)
         pkts"

definition rawCompliance :: "real \<Rightarrow> FramePacket \<Rightarrow> ComplianceState" where
  "rawCompliance phoneThreshold packet =
     (let anyHoldingRail = list_ex holdingRail (recomputedPersons phoneThreshold packet)
      in if total_persons (metrics packet) = 0 then unknown_compliance
         else if anyHoldingRail then compliant else non_compliant)"

definition rawPhone :: "real \<Rightarrow> FramePacket \<Rightarrow> PhoneState" where
  "rawPhone phoneThreshold packet =
     (let anyUsingPhone = list_ex usingPhone (recomputedPersons phoneThreshold packet)
      in if anyUsingPhone then phone else no_phone)"

definition rawState :: "real \<Rightarrow> FramePacket \<Rightarrow> StateTuple" where
  "rawState phoneThreshold packet =
     (rawCompliance phoneThreshold packet, rawPhone phoneThreshold packet)"

section \<open>The debounce state machine\<close>

definition fps :: int where
  "fps = 24"

text \<open>
  The two products and quotients of the module that can round are computed in double
  precision. \<open>doubleOf x\<close> is the double nearest to the real \<open>x\<close>: \<open>x\<close> is rounded to
  53 significant bits, a tie going to the even significand. \<open>exponentOf x\<close> is the
  \<open>e\<close> with \<open>2 ^ e \<le> \<bar>x\<bar> < 2 ^ (e + 1)\<close>. Subnormal results and overflow are not
  modelled: \<open>doubleOf\<close> is the IEEE 754 result for \<open>2 ^ -1022 \<le> \<bar>x\<bar> < 2 ^ 1024\<close> and
  for 0.
\<close>

definition pow2 :: "int \<Rightarrow> real" where
  "pow2 e = (if 0 \<le> e then 2 ^ nat e else 1 / 2 ^ nat (- e))"

definition exponentOf :: "real \<Rightarrow> int" where
  "exponentOf x =
     (if 1 \<le> \<bar>x\<bar> then bitlen \<lfloor>\<bar>x\<bar>\<rfloor> - 1 else - bitlen (\<lceil>1 / \<bar>x\<bar>\<rceil> - 1))"

definition roundHalfEven :: "real \<Rightarrow> int" where
  "roundHalfEven r =
     (let f = \<lfloor>r\<rfloor>
      in if r - real_of_int f < 1 / 2 then f
         else if 1 / 2 < r - real_of_int f then f + 1
         else if even f then f else f + 1)"

definition doubleOf :: "real \<Rightarrow> real" where
  "doubleOf x =
     (if x = 0 then 0
      else let ulp = pow2 (exponentOf x - 52)
           in real_of_int (roundHalfEven (x / ulp)) * ulp)"

text \<open>
  \<^verbatim>\<open>Math.ceil(debounceDuration * fps)\<close>: the ceiling of the double product. A product
  below \<open>2 ^ -1022\<close> in absolute value has the same ceiling under \<open>doubleOf\<close> as in
  double precision (1 when positive, 0 otherwise).
\<close>

definition minFramesOf :: "real \<Rightarrow> int" where
  "minFramesOf debounceDuration = \<lceil>doubleOf (debounceDuration * real_of_int fps)\<rceil>"

text \<open>\<^verbatim>\<open>pendingFrameCount / fps\<close>, the double quotient.\<close>

definition timeInPending :: "int \<Rightarrow> real" where
  "timeInPending n = doubleOf (real_of_int n / real_of_int fps)"

definition determineEventType :: "StateTuple \<Rightarrow> StateTuple \<Rightarrow> string" where
  "determineEventType oldState newState =
     (if fst oldState \<noteq> fst newState then
        (if fst newState = compliant then ''compliant_start'' else ''non_compliant_start'')
      else if snd oldState \<noteq> snd newState then
        (if snd newState = phone then ''phone_detected'' else ''phone_ended'')
      else ''state_change'')"

text \<open>The three counters, updated from the raw state of the frame.\<close>

definition updateStats :: "StateTuple \<Rightarrow> LoopState \<Rightarrow> LoopState" where
  "updateStats raw st =
     (let st1 = (if fst raw = compliant
                 then st\<lparr>acc_compliantFrames := acc_compliantFrames st + 1\<rparr>
                 else if fst raw = non_compliant
                 then st\<lparr>acc_nonCompliantFrames := acc_nonCompliantFrames st + 1\<rparr>
                 else st)
      in if snd raw = phone then st1\<lparr>acc_phoneFrames := acc_phoneFrames st1 + 1\<rparr> else st1)"

text \<open>
  The state machine logic of one iteration. The result pairs the outcome of the block
  (\<open>None\<close>: it runs to its end; \<open>Some e\<close>: it raises \<open>e\<close>) with the local variables as
  they are at that point. In the commit branch the three assignments to
  \<^verbatim>\<open>stableState\<close>, \<^verbatim>\<open>pendingState\<close> and \<^verbatim>\<open>pendingFrameCount\<close> are followed by the
  assignment to the undeclared \<^verbatim>\<open>commitEvent\<close>, which raises before
  \<^verbatim>\<open>events.push\<close> is reached.
\<close>

definition stateMachine :: "int \<Rightarrow> StateTuple \<Rightarrow> LoopState \<Rightarrow> error option \<times> LoopState" where
  "stateMachine minFrames raw st =
     (if fst (stableState st) = unknown_compliance \<and> snd (stableState st) = unknown_phone then
        (if fst raw \<noteq> unknown_compliance
         then (None, st\<lparr>stableState := raw\<rparr>)
         else (None, st))
      else if fst raw \<noteq> fst (stableState st) \<or> snd raw \<noteq> snd (stableState st) then
        (if pendingState st = Some raw then
           (let st1 = st\<lparr>pendingFrameCount := pendingFrameCount st + 1\<rparr>
            in if pendingFrameCount st1 \<ge> minFrames
               then (Some ReferenceError,
                     st1\<lparr>stableState := raw, pendingState := None, pendingFrameCount := 0\<rparr>)
               else (None, st1))
         else (None, st\<lparr>pendingState := Some raw, pendingFrameCount := 1\<rparr>))
      else (None, st\<lparr>pendingState := None, pendingFrameCount := 0\<rparr>))"

text \<open>The packet pushed onto \<^verbatim>\<open>processedPackets\<close> at the end of an iteration.\<close>

definition processedPacket :: "real \<Rightarrow> real \<Rightarrow> FramePacket \<Rightarrow> LoopState \<Rightarrow> FramePacket" where
  "processedPacket phoneThreshold debounceDuration packet st =
     packet\<lparr>persons := recomputedPersons phoneThreshold packet,
            metrics := (metrics packet)
              \<lparr>phone_count := phoneCount (recomputedPersons phoneThreshold packet)\<rparr>,
            state_machine := Some
              \<lparr>current_state = stableState st,
               pending_state = pendingState st,
               time_in_pending = timeInPending (pendingFrameCount st),
               debounce_threshold = debounceDuration\<rparr>\<rparr>"

text \<open>One iteration of the loop over the packets.\<close>

definition loopBody ::
  "real \<Rightarrow> real \<Rightarrow> int \<Rightarrow> FramePacket \<Rightarrow> LoopState \<Rightarrow> error option \<times> LoopState" where
  "loopBody phoneThreshold debounceDuration minFrames packet st =
     (case stateMachine minFrames (rawState phoneThreshold packet)
             (updateStats (rawState phoneThreshold packet) st) of
        (Some e, st') \<Rightarrow> (Some e, st')
      | (None, st') \<Rightarrow>
          (None, st'\<lparr>processedPackets := processedPackets st' @
                        [processedPacket phoneThreshold debounceDuration packet st']\<rparr>))"

text \<open>The loop: it stops at the first iteration that raises.\<close>

fun runLoop ::
  "real \<Rightarrow> real \<Rightarrow> int \<Rightarrow> FramePacket list \<Rightarrow> LoopState \<Rightarrow> error option \<times> LoopState" where
  "runLoop phoneThreshold debounceDuration minFrames [] st = (None, st)"
| "runLoop phoneThreshold debounceDuration minFrames (packet # rest) st =
     (case loopBody phoneThreshold debounceDuration minFrames packet st of
        (Some e, st') \<Rightarrow> (Some e, st')
      | (None, st') \<Rightarrow> runLoop phoneThreshold debounceDuration minFrames rest st')"

definition initialState :: LoopState where
  "initialState =
     \<lparr>stableState = (unknown_compliance, unknown_phone),
      pendingState = None,
      pendingFrameCount = 0,
      acc_events = [],
      processedPackets = [],
      acc_compliantFrames = 0,
      acc_nonCompliantFrames = 0,
      acc_phoneFrames = 0\<rparr>"

definition simulateDebounce ::
  "FramePacket list \<Rightarrow> real \<Rightarrow> real \<Rightarrow> error + SimulationResult" where
  "simulateDebounce pkts phoneThreshold debounceDuration =
     (if length pkts = 0 then
        Inr \<lparr>packets = [], events = [],
             stats = \<lparr>totalFrames = 0, compliantFrames = 0, nonCompliantFrames = 0,
                      phoneFrames = 0, totalCommits = 0\<rparr>\<rparr>
      else
        (case runLoop phoneThreshold debounceDuration (minFramesOf debounceDuration)
                pkts initialState of
           (Some e, st) \<Rightarrow> Inl e
         | (None, st) \<Rightarrow>
             Inr \<lparr>packets = processedPackets st, events = acc_events st,
                  stats = \<lparr>totalFrames = int (length pkts),
                           compliantFrames = acc_compliantFrames st,
                           nonCompliantFrames = acc_nonCompliantFrames st,
                           phoneFrames = acc_phoneFrames st,
                           totalCommits = int (length (acc_events st))\<rparr>\<rparr>))"

section \<open>Comparison of two runs\<close>

record Delta =
  phoneFramesChange :: int
  eventsChange :: int

record Comparison =
  baseline :: SimulationStats
  tuned :: SimulationStats
  delta :: Delta

definition compareParameters :: "SimulationStats \<Rightarrow> SimulationStats \<Rightarrow> Comparison" where
  "compareParameters baselineStats tunedStats =
     \<lparr>baseline = baselineStats,
      tuned = tunedStats,
      delta = \<lparr>phoneFramesChange = phoneFrames tunedStats - phoneFrames baselineStats,
               eventsChange = totalCommits tunedStats - totalCommits baselineStats\<rparr>\<rparr>"

section \<open>Observations on a run\<close>

text \<open>The stable state that a processed packet reports in its \<^verbatim>\<open>state_machine\<close> block.\<close>

definition committedState :: "FramePacket \<Rightarrow> StateTuple option" where
  "committedState p = map_option current_state (state_machine p)"


text \<open>While the stable state is the initial pair, no candidate is pending.\<close>

definition settled :: "LoopState \<Rightarrow> bool" where
  "settled st =
     (stableState st = (unknown_compliance, unknown_phone) \<longrightarrow>
        pendingState st = None \<and> pendingFrameCount st = 0)"


section \<open>Example frames\<close>

text \<open>
  A person with a rail hit test and a wrist-to-ear distance, a person for whom the
  pipeline measured nothing, and frames built from them. Frame \<open>n\<close> is stamped
  \<open>n / 24\<close> seconds.
\<close>

definition examplePerson :: "bool \<Rightarrow> real \<Rightarrow> PersonAnalysis" where
  "examplePerson hit d =
     \<lparr>person_id = 0,
      rail_hit_test = Some \<lparr>any_hit = hit\<rparr>,
      phone_heuristic = Some \<lparr>min_distance = d, threshold = 0.05, is_phone_talking = False\<rparr>\<rparr>"

definition unmeasuredPerson :: PersonAnalysis where
  "unmeasuredPerson = \<lparr>person_id = 1, rail_hit_test = None, phone_heuristic = None\<rparr>"

definition exampleFrame :: "int \<Rightarrow> int \<Rightarrow> PersonAnalysis list \<Rightarrow> FramePacket" where
  "exampleFrame n k ps =
     \<lparr>frame_number = n,
      timestamp_sec = real_of_int n / 24,
      metrics = \<lparr>total_persons = k, compliant_count = 0,
                 non_compliant_count = 0, phone_count = 0\<rparr>,
      persons = ps,
      state_machine = None\<rparr>"

definition holdingFrame :: "int \<Rightarrow> FramePacket" where
  "holdingFrame n = exampleFrame n 1 [examplePerson True 0.2]"

definition releasedFrame :: "int \<Rightarrow> FramePacket" where
  "releasedFrame n = exampleFrame n 1 [examplePerson False 0.2]"

definition emptyFrame :: "int \<Rightarrow> FramePacket" where
  "emptyFrame n = exampleFrame n 0 []"

text \<open>A frame whose metrics count no person although its list holds one, on the rail.\<close>

definition inconsistentFrame :: FramePacket where
  "inconsistentFrame = exampleFrame 0 0 [examplePerson True 0.2]"

definition unmeasuredFrame :: FramePacket where
  "unmeasuredFrame = exampleFrame 0 1 [unmeasuredPerson]"

text \<open>One person whose distance 0.07 lies between the thresholds 0.05 and 0.1.\<close>

definition nearEarFrame :: FramePacket where
  "nearEarFrame = exampleFrame 0 1 [examplePerson True 0.07]"

text \<open>
  The concrete scenario of the specification's section 8: frames 0 to 11 off the rail,
  frames 12 to 19 on the rail (8 frames), frames 20 to 23 off the rail again, frames 24
  to 35 on the rail (12 frames); nobody near a phone.
\<close>

definition scenario :: "FramePacket list" where
  "scenario = map releasedFrame [0..11] @ map holdingFrame [12..19]
     @ map releasedFrame [20..23] @ map holdingFrame [24..35]"

lemmas example_defs =
  examplePerson_def exampleFrame_def holdingFrame_def releasedFrame_def emptyFrame_def

lemmas model_defs =
  simulateDebounce_def initialState_def loopBody_def
  stateMachine_def updateStats_def rawState_def rawCompliance_def rawPhone_def
  recomputedPersons_def recomputePerson_def recomputePhoneForPerson_def holdingRail_def
  usingPhone_def processedPacket_def phoneCount_def Let_def

section \<open>Double arithmetic at the values used below\<close>

text \<open>
  The durations 0.5 and 0.125 give 12 and 3 frames. The double nearest to 5/24 gives 5
  frames, its product with 24 rounding to 5, where the exact product lies above 5.
\<close>

lemma minFramesOf_half [simp]: "minFramesOf (1 / 2) = 12"
  by code_simp

lemma minFramesOf_eighth [simp]: "minFramesOf (1 / 8) = 3"
  by code_simp

lemma minFramesOf_rounds:
  "doubleOf (5 / 24) = 7505999378950827 / 2 ^ 55
   \<and> minFramesOf (7505999378950827 / 2 ^ 55) = 5
   \<and> \<lceil>(7505999378950827 / 2 ^ 55) * (24::real)\<rceil> = 6"
  by code_simp

lemma timeInPending_zero [simp]: "timeInPending 0 = 0"
  by (simp add: timeInPending_def doubleOf_def)

section \<open>Properties of one iteration\<close>

text \<open>The phone axis of a raw state is never unknown.\<close>

lemma rawState_phone_known: "snd (rawState t p) \<noteq> unknown_phone"
  by (simp add: rawState_def rawPhone_def)

text \<open>What the recomputation does to the two flags read from a person.\<close>

lemma usingPhone_recomputePerson:
  "usingPhone (recomputePerson t x) = recomputePhoneForPerson (phone_heuristic x) t"
  by (simp add: usingPhone_def recomputePerson_def recomputePhoneForPerson_def Let_def
      split: option.splits)

lemma holdingRail_recomputePerson: "holdingRail (recomputePerson t x) = holdingRail x"
  by (simp add: holdingRail_def recomputePerson_def Let_def)

lemma rawPhone_eq:
  "rawPhone t p =
     (if list_ex (\<lambda>x. recomputePhoneForPerson (phone_heuristic x) t) (persons p)
      then phone else no_phone)"
  by (simp add: rawPhone_def recomputedPersons_def list_ex_iff usingPhone_recomputePerson)

lemma rawCompliance_eq:
  "rawCompliance t p =
     (if total_persons (metrics p) = 0 then unknown_compliance
      else if list_ex holdingRail (persons p) then compliant else non_compliant)"
  by (simp add: rawCompliance_def recomputedPersons_def list_ex_iff holdingRail_recomputePerson)

lemma phoneCount_recomputed:
  "phoneCount (recomputedPersons t p) =
     int (length (filter (\<lambda>x. recomputePhoneForPerson (phone_heuristic x) t) (persons p)))"
  by (simp add: phoneCount_def recomputedPersons_def filter_map comp_def
      usingPhone_recomputePerson)

text \<open>Frame conditions: which variables each part of an iteration leaves alone.\<close>

lemma updateStats_machine [simp]:
  "stableState (updateStats raw st) = stableState st"
  "pendingState (updateStats raw st) = pendingState st"
  "pendingFrameCount (updateStats raw st) = pendingFrameCount st"
  "acc_events (updateStats raw st) = acc_events st"
  "processedPackets (updateStats raw st) = processedPackets st"
  by (simp_all add: updateStats_def Let_def)

lemma updateStats_phoneFrames:
  "acc_phoneFrames (updateStats raw st) = acc_phoneFrames st + (if snd raw = phone then 1 else 0)"
  by (simp add: updateStats_def Let_def)

lemma stateMachine_frame [simp]:
  "acc_events (snd (stateMachine m raw st)) = acc_events st"
  "processedPackets (snd (stateMachine m raw st)) = processedPackets st"
  "acc_phoneFrames (snd (stateMachine m raw st)) = acc_phoneFrames st"
  "acc_compliantFrames (snd (stateMachine m raw st)) = acc_compliantFrames st"
  "acc_nonCompliantFrames (snd (stateMachine m raw st)) = acc_nonCompliantFrames st"
  by (simp_all add: stateMachine_def Let_def)

lemma committedState_processedPacket [simp]:
  "committedState (processedPacket t d p st) = Some (stableState st)"
  by (simp add: committedState_def processedPacket_def)

lemma state_machine_processedPacket [simp]:
  "state_machine (processedPacket t d p st) =
     Some \<lparr>current_state = stableState st, pending_state = pendingState st,
           time_in_pending = timeInPending (pendingFrameCount st),
           debounce_threshold = d\<rparr>"
  by (simp add: processedPacket_def)

text \<open>The five branches of the state machine logic.\<close>

lemma stateMachine_cold:
  "stableState st = (unknown_compliance, unknown_phone) \<Longrightarrow>
   stateMachine m raw st =
     (None, if fst raw \<noteq> unknown_compliance then st\<lparr>stableState := raw\<rparr> else st)"
  by (simp add: stateMachine_def)

lemma stateMachine_same:
  "stableState st \<noteq> (unknown_compliance, unknown_phone) \<Longrightarrow> raw = stableState st \<Longrightarrow>
   stateMachine m raw st = (None, st\<lparr>pendingState := None, pendingFrameCount := 0\<rparr>)"
  by (auto simp add: stateMachine_def prod_eq_iff)

lemma stateMachine_new:
  "stableState st \<noteq> (unknown_compliance, unknown_phone) \<Longrightarrow> raw \<noteq> stableState st \<Longrightarrow>
   pendingState st \<noteq> Some raw \<Longrightarrow>
   stateMachine m raw st = (None, st\<lparr>pendingState := Some raw, pendingFrameCount := 1\<rparr>)"
  by (auto simp add: stateMachine_def prod_eq_iff)

lemma stateMachine_count:
  "stableState st \<noteq> (unknown_compliance, unknown_phone) \<Longrightarrow> raw \<noteq> stableState st \<Longrightarrow>
   pendingState st = Some raw \<Longrightarrow> pendingFrameCount st + 1 < m \<Longrightarrow>
   stateMachine m raw st = (None, st\<lparr>pendingFrameCount := pendingFrameCount st + 1\<rparr>)"
  by (auto simp add: stateMachine_def prod_eq_iff Let_def)

lemma stateMachine_commit:
  "stableState st \<noteq> (unknown_compliance, unknown_phone) \<Longrightarrow> raw \<noteq> stableState st \<Longrightarrow>
   pendingState st = Some raw \<Longrightarrow> m \<le> pendingFrameCount st + 1 \<Longrightarrow>
   stateMachine m raw st =
     (Some ReferenceError,
      st\<lparr>stableState := raw, pendingState := None, pendingFrameCount := 0\<rparr>)"
  by (auto simp add: stateMachine_def prod_eq_iff Let_def)

text \<open>An iteration as a whole.\<close>

lemma loopBody_None:
  assumes "loopBody t d m p st = (None, st')"
  shows "\<exists>st2. stateMachine m (rawState t p) (updateStats (rawState t p) st) = (None, st2)
     \<and> st' = st2\<lparr>processedPackets := processedPackets st @ [processedPacket t d p st2]\<rparr>"
proof (cases "stateMachine m (rawState t p) (updateStats (rawState t p) st)")
  case (Pair e st2)
  have "processedPackets st2 = processedPackets st"
    using stateMachine_frame(2)[of m "rawState t p" "updateStats (rawState t p) st"] Pair by simp
  with assms Pair show ?thesis
    by (cases e) (simp_all add: loopBody_def)
qed

lemma loopBody_acc_events: "acc_events (snd (loopBody t d m p st)) = acc_events st"
proof (cases "stateMachine m (rawState t p) (updateStats (rawState t p) st)")
  case (Pair e st2)
  have "acc_events st2 = acc_events st"
    using stateMachine_frame(1)[of m "rawState t p" "updateStats (rawState t p) st"] Pair by simp
  with Pair show ?thesis
    by (cases e) (simp_all add: loopBody_def)
qed

lemma loopBody_cold:
  assumes "stableState st = (unknown_compliance, unknown_phone)"
  shows "\<exists>st1. loopBody t d m p st = (None, st1)
     \<and> stableState st1 =
         (if fst (rawState t p) \<noteq> unknown_compliance then rawState t p
          else (unknown_compliance, unknown_phone))
     \<and> pendingState st1 = pendingState st
     \<and> pendingFrameCount st1 = pendingFrameCount st
     \<and> processedPackets st1 = processedPackets st @ [processedPacket t d p st1]"
  using assms
  by (simp add: loopBody_def stateMachine_cold processedPacket_def)

lemma loopBody_cold_unknown:
  assumes "stableState st = (unknown_compliance, unknown_phone)"
    and "fst (rawState t p) = unknown_compliance"
  shows "\<exists>st1. loopBody t d m p st = (None, st1)
     \<and> stableState st1 = (unknown_compliance, unknown_phone)
     \<and> pendingState st1 = pendingState st
     \<and> pendingFrameCount st1 = pendingFrameCount st
     \<and> processedPackets st1 = processedPackets st @ [processedPacket t d p st1]"
  using loopBody_cold[OF assms(1), of t d m p] assms(2) by simp

lemma loopBody_same:
  assumes "stableState st \<noteq> (unknown_compliance, unknown_phone)"
    and "rawState t p = stableState st"
  shows "\<exists>st1. loopBody t d m p st = (None, st1)
     \<and> stableState st1 = stableState st
     \<and> pendingState st1 = None
     \<and> pendingFrameCount st1 = 0
     \<and> processedPackets st1 = processedPackets st @ [processedPacket t d p st1]"
  using assms
  by (simp add: loopBody_def stateMachine_same processedPacket_def)

lemma loopBody_pending:
  assumes "stableState st \<noteq> (unknown_compliance, unknown_phone)"
    and "rawState t p \<noteq> stableState st"
    and "0 \<le> pendingFrameCount st"
    and "pendingFrameCount st + 1 < m"
  shows "\<exists>st1. loopBody t d m p st = (None, st1)
     \<and> stableState st1 = stableState st
     \<and> 0 \<le> pendingFrameCount st1
     \<and> pendingFrameCount st1 \<le> pendingFrameCount st + 1
     \<and> processedPackets st1 = processedPackets st @ [processedPacket t d p st1]"
proof (cases "pendingState st = Some (rawState t p)")
  case True
  with assms show ?thesis
    by (simp add: loopBody_def stateMachine_count processedPacket_def)
next
  case False
  with assms show ?thesis
    by (simp add: loopBody_def stateMachine_new processedPacket_def)
qed

lemma loopBody_new:
  assumes "stableState st \<noteq> (unknown_compliance, unknown_phone)"
    and "rawState t p \<noteq> stableState st"
    and "pendingState st \<noteq> Some (rawState t p)"
  shows "\<exists>st1. loopBody t d m p st = (None, st1)
     \<and> stableState st1 = stableState st
     \<and> pendingFrameCount st1 = 1
     \<and> processedPackets st1 = processedPackets st @ [processedPacket t d p st1]"
  using assms
  by (simp add: loopBody_def stateMachine_new processedPacket_def)




lemma loopBody_phoneFrames:
  assumes "loopBody t d m p st = (None, st1)"
  shows "acc_phoneFrames st1 = acc_phoneFrames st + (if rawPhone t p = phone then 1 else 0)"
proof -
  from loopBody_None[OF assms] obtain st2 where
    sm: "stateMachine m (rawState t p) (updateStats (rawState t p) st) = (None, st2)" and
    st1: "st1 = st2\<lparr>processedPackets := processedPackets st @ [processedPacket t d p st2]\<rparr>"
    by blast
  have "acc_phoneFrames st2 = acc_phoneFrames (updateStats (rawState t p) st)"
    using stateMachine_frame(3)[of m "rawState t p" "updateStats (rawState t p) st"] sm by simp
  then show ?thesis
    using st1 by (simp add: updateStats_phoneFrames rawState_def)
qed

lemma settled_initialState: "settled initialState"
  by (simp add: settled_def initialState_def)

lemma loopBody_settled:
  assumes "settled st" and "loopBody t d m p st = (None, st1)"
  shows "settled st1
     \<and> (rawState t p = stableState st1 \<longrightarrow> pendingState st1 = None \<and> pendingFrameCount st1 = 0)
     \<and> processedPackets st1 = processedPackets st @ [processedPacket t d p st1]
     \<and> (pendingState st1 = None \<or> pendingState st1 = Some (rawState t p))"
proof (cases "stableState st = (unknown_compliance, unknown_phone)")
  case True
  then show ?thesis
    using assms loopBody_cold[of st t d m p] by (auto simp add: settled_def)
next
  case established: False
  show ?thesis
  proof (cases "rawState t p = stableState st")
    case True
    then show ?thesis
      using assms established loopBody_same[of st t p d m] by (auto simp add: settled_def)
  next
    case changed: False
    show ?thesis
    proof (cases "pendingState st = Some (rawState t p)")
      case False
      then show ?thesis
        using assms established changed
        by (auto simp add: loopBody_def stateMachine_new settled_def processedPacket_def)
    next
      case pending: True
      show ?thesis
      proof (cases "pendingFrameCount st + 1 < m")
        case True
        then show ?thesis
          using assms established changed pending
          by (auto simp add: loopBody_def stateMachine_count settled_def processedPacket_def)
      next
        case False
        then have "m \<le> pendingFrameCount st + 1" by simp
        then show ?thesis
          using assms established changed pending
          by (simp add: loopBody_def stateMachine_commit)
      qed
    qed
  qed
qed

section \<open>Properties of the loop\<close>

lemma runLoop_append:
  "runLoop t d m (xs @ ys) st =
     (case runLoop t d m xs st of
        (Some e, st') \<Rightarrow> (Some e, st')
      | (None, st') \<Rightarrow> runLoop t d m ys st')"
  by (induction xs arbitrary: st) (auto split: prod.splits option.splits)

lemma runLoop_snoc:
  assumes "runLoop t d m (xs @ [x]) st = (None, st')"
  shows "\<exists>st1. runLoop t d m xs st = (None, st1) \<and> loopBody t d m x st1 = (None, st')"
proof (cases "runLoop t d m xs st")
  case (Pair e st1)
  with assms have e: "e = None"
    by (cases e) (simp_all add: runLoop_append)
  with assms Pair have "loopBody t d m x st1 = (None, st')"
    by (simp add: runLoop_append split: prod.splits option.splits)
  with Pair e show ?thesis by simp
qed


lemma runLoop_acc_events: "acc_events (snd (runLoop t d m xs st)) = acc_events st"
proof (induction xs arbitrary: st)
  case Nil
  show ?case by simp
next
  case (Cons x xs)
  show ?case
  proof (cases "loopBody t d m x st")
    case (Pair e st1)
    have "acc_events st1 = acc_events st"
      using loopBody_acc_events[of t d m x st] Pair by simp
    with Pair Cons show ?thesis
      by (cases e) simp_all
  qed
qed

lemma runLoop_settled:
  assumes "settled st" and "runLoop t d m xs st = (None, st')"
  shows "settled st'"
  using assms
proof (induction xs arbitrary: st)
  case Nil
  then show ?case by simp
next
  case (Cons x xs)
  show ?case
  proof (cases "loopBody t d m x st")
    case (Pair e st1)
    with Cons.prems have e: "e = None" and rest: "runLoop t d m xs st1 = (None, st')"
      by (cases e; simp)+
    from Pair e Cons.prems(1) have "settled st1"
      using loopBody_settled[of st t d m x st1] by simp
    then show ?thesis using rest by (rule Cons.IH)
  qed
qed

lemma runLoop_last:
  assumes "runLoop t d m (xs @ [x]) initialState = (None, st')"
  shows "(rawState t x = stableState st' \<longrightarrow> pendingState st' = None \<and> pendingFrameCount st' = 0)
     \<and> processedPackets st' \<noteq> []
     \<and> committedState (last (processedPackets st')) = Some (stableState st')
     \<and> (pendingState st' = None \<or> pendingState st' = Some (rawState t x))"
proof -
  from assms obtain st1 where
    pre: "runLoop t d m xs initialState = (None, st1)" and
    step: "loopBody t d m x st1 = (None, st')"
    using runLoop_snoc by blast
  have "settled st1"
    using settled_initialState pre by (rule runLoop_settled)
  then show ?thesis
    using loopBody_settled[OF _ step] by simp
qed

lemma runLoop_phoneFrames:
  assumes "runLoop t d m pkts st = (None, st')"
  shows "acc_phoneFrames st' =
     acc_phoneFrames st + int (length (filter (\<lambda>p. rawPhone t p = phone) pkts))"
  using assms
proof (induction pkts arbitrary: st)
  case Nil
  then show ?case by simp
next
  case (Cons p pkts)
  show ?case
  proof (cases "loopBody t d m p st")
    case (Pair e st1)
    with Cons.prems have e: "e = None" and rest: "runLoop t d m pkts st1 = (None, st')"
      by (cases e; simp)+
    from Pair e have "acc_phoneFrames st1 = acc_phoneFrames st + (if rawPhone t p = phone then 1 else 0)"
      using loopBody_phoneFrames by simp
    with Cons.IH[OF rest] show ?thesis by simp
  qed
qed

lemma runLoop_transient:
  assumes "stableState st \<noteq> (unknown_compliance, unknown_phone)"
    and "\<forall>p\<in>set flip. rawState t p \<noteq> stableState st"
    and "0 \<le> pendingFrameCount st"
    and "pendingFrameCount st + int (length flip) < m"
  shows "\<exists>st' tail. runLoop t d m flip st = (None, st')
     \<and> stableState st' = stableState st
     \<and> processedPackets st' = processedPackets st @ tail
     \<and> map committedState tail = replicate (length flip) (Some (stableState st))"
  using assms
proof (induction flip arbitrary: st)
  case Nil
  show ?case by simp
next
  case (Cons p flip)
  from Cons.prems obtain st1 where
    step: "loopBody t d m p st = (None, st1)" and
    stable: "stableState st1 = stableState st" and
    nonneg: "0 \<le> pendingFrameCount st1" and
    bound: "pendingFrameCount st1 \<le> pendingFrameCount st + 1" and
    pushed: "processedPackets st1 = processedPackets st @ [processedPacket t d p st1]"
    using loopBody_pending[of st t p m d] by auto
  have "\<exists>st' tail. runLoop t d m flip st1 = (None, st')
     \<and> stableState st' = stableState st1
     \<and> processedPackets st' = processedPackets st1 @ tail
     \<and> map committedState tail = replicate (length flip) (Some (stableState st1))"
    using Cons.prems stable nonneg bound by (intro Cons.IH) auto
  then obtain st' tail where
    rest: "runLoop t d m flip st1 = (None, st')" and
    stable': "stableState st' = stableState st1" and
    pushed': "processedPackets st' = processedPackets st1 @ tail" and
    states: "map committedState tail = replicate (length flip) (Some (stableState st1))"
    by blast
  have "runLoop t d m (p # flip) st = (None, st')"
    using step rest by simp
  moreover have "processedPackets st' = processedPackets st @ (processedPacket t d p st1 # tail)"
    using pushed pushed' by simp
  moreover have "map committedState (processedPacket t d p st1 # tail) =
      replicate (length (p # flip)) (Some (stableState st))"
    using states stable by simp
  ultimately show ?case
    using stable stable' by metis
qed

lemma runLoop_cold_prefix:
  assumes "stableState st = (unknown_compliance, unknown_phone)"
    and "list_all (\<lambda>p. fst (rawState t p) = unknown_compliance) pre"
  shows "\<exists>st' tail. runLoop t d m pre st = (None, st')
     \<and> stableState st' = (unknown_compliance, unknown_phone)
     \<and> pendingState st' = pendingState st
     \<and> pendingFrameCount st' = pendingFrameCount st
     \<and> processedPackets st' = processedPackets st @ tail
     \<and> map state_machine tail = replicate (length pre)
          (Some \<lparr>current_state = (unknown_compliance, unknown_phone),
                 pending_state = pendingState st,
                 time_in_pending = timeInPending (pendingFrameCount st),
                 debounce_threshold = d\<rparr>)"
  using assms
proof (induction pre arbitrary: st)
  case Nil
  then show ?case by simp
next
  case (Cons p pre)
  from Cons.prems obtain st1 where
    step: "loopBody t d m p st = (None, st1)" and
    stable: "stableState st1 = (unknown_compliance, unknown_phone)" and
    pend: "pendingState st1 = pendingState st" "pendingFrameCount st1 = pendingFrameCount st" and
    pushed: "processedPackets st1 = processedPackets st @ [processedPacket t d p st1]"
    using loopBody_cold_unknown[of st t p d m] by auto
  from Cons.prems have "list_all (\<lambda>p. fst (rawState t p) = unknown_compliance) pre"
    by simp
  from Cons.IH[OF stable this] obtain st' tail where
    rest: "runLoop t d m pre st1 = (None, st')" and
    stable': "stableState st' = (unknown_compliance, unknown_phone)" and
    pend': "pendingState st' = pendingState st1" "pendingFrameCount st' = pendingFrameCount st1" and
    pushed': "processedPackets st' = processedPackets st1 @ tail" and
    states: "map state_machine tail = replicate (length pre)
          (Some \<lparr>current_state = (unknown_compliance, unknown_phone),
                 pending_state = pendingState st1,
                 time_in_pending = timeInPending (pendingFrameCount st1),
                 debounce_threshold = d\<rparr>)"
    by blast
  have "runLoop t d m (p # pre) st = (None, st')"
    using step rest by simp
  moreover have "processedPackets st' = processedPackets st @ (processedPacket t d p st1 # tail)"
    using pushed pushed' by simp
  moreover have "map state_machine (processedPacket t d p st1 # tail) = replicate (length (p # pre))
          (Some \<lparr>current_state = (unknown_compliance, unknown_phone),
                 pending_state = pendingState st,
                 time_in_pending = timeInPending (pendingFrameCount st),
                 debounce_threshold = d\<rparr>)"
    using states stable pend by simp
  ultimately show ?case
    using stable' pend pend' by metis
qed

lemma runLoop_flip:
  assumes "stableState st \<noteq> (unknown_compliance, unknown_phone)"
    and "\<forall>p\<in>set flip. rawState t p \<noteq> stableState st"
    and "\<forall>p\<in>set flip. pendingState st \<noteq> Some (rawState t p)"
    and "int (length flip) < m"
  shows "\<exists>st' tail. runLoop t d m flip st = (None, st')
     \<and> stableState st' = stableState st
     \<and> processedPackets st' = processedPackets st @ tail
     \<and> map committedState tail = replicate (length flip) (Some (stableState st))"
proof (cases flip)
  case Nil
  then show ?thesis by simp
next
  case (Cons p rest)
  with assms obtain st1 where
    step: "loopBody t d m p st = (None, st1)" and
    stable: "stableState st1 = stableState st" and
    count: "pendingFrameCount st1 = 1" and
    pushed: "processedPackets st1 = processedPackets st @ [processedPacket t d p st1]"
    using loopBody_new[of st t p d m] by auto
  have "\<exists>st' tail. runLoop t d m rest st1 = (None, st')
     \<and> stableState st' = stableState st1
     \<and> processedPackets st' = processedPackets st1 @ tail
     \<and> map committedState tail = replicate (length rest) (Some (stableState st1))"
    using assms Cons stable count by (intro runLoop_transient) auto
  then obtain st' tail where
    rest: "runLoop t d m rest st1 = (None, st')" and
    stable': "stableState st' = stableState st1" and
    pushed': "processedPackets st' = processedPackets st1 @ tail" and
    states: "map committedState tail = replicate (length rest) (Some (stableState st1))"
    by blast
  have "runLoop t d m flip st = (None, st')"
    using Cons step rest by simp
  moreover have "processedPackets st' = processedPackets st @ (processedPacket t d p st1 # tail)"
    using pushed pushed' by simp
  moreover have "map committedState (processedPacket t d p st1 # tail) =
      replicate (length flip) (Some (stableState st))"
    using Cons states stable by simp
  ultimately show ?thesis
    using stable stable' by metis
qed



text \<open>A run that returns, read back as a run of the loop.\<close>

lemma simulateDebounce_Inr:
  assumes "pkts \<noteq> []"
  shows "simulateDebounce pkts t d = Inr r \<longleftrightarrow>
     (\<exists>st. runLoop t d (minFramesOf d) pkts initialState = (None, st)
        \<and> r = \<lparr>packets = processedPackets st, events = acc_events st,
                stats = \<lparr>totalFrames = int (length pkts),
                         compliantFrames = acc_compliantFrames st,
                         nonCompliantFrames = acc_nonCompliantFrames st,
                         phoneFrames = acc_phoneFrames st,
                         totalCommits = int (length (acc_events st))\<rparr>\<rparr>)"
  using assms
  by (auto simp add: simulateDebounce_def split: prod.splits option.splits)

lemma simulateDebounce_events:
  assumes "simulateDebounce pkts t d = Inr r"
  shows "events r = []"
proof (cases "pkts = []")
  case True
  with assms show ?thesis by (auto simp add: simulateDebounce_def)
next
  case False
  with assms obtain st where
    run: "runLoop t d (minFramesOf d) pkts initialState = (None, st)" and
    r: "events r = acc_events st"
    by (auto simp add: simulateDebounce_Inr)
  show ?thesis
    using runLoop_acc_events[of t d "minFramesOf d" pkts initialState] run r
    by (simp add: initialState_def)
qed

lemma simulateDebounce_phoneFrames:
  assumes "simulateDebounce pkts t d = Inr r"
  shows "phoneFrames (stats r) = int (length (filter (\<lambda>p. rawPhone t p = phone) pkts))"
proof (cases "pkts = []")
  case True
  with assms show ?thesis by (auto simp add: simulateDebounce_def)
next
  case False
  with assms obtain st where
    run: "runLoop t d (minFramesOf d) pkts initialState = (None, st)" and
    r: "phoneFrames (stats r) = acc_phoneFrames st"
    by (auto simp add: simulateDebounce_Inr)
  show ?thesis
    using runLoop_phoneFrames[OF run] r by (simp add: initialState_def)
qed

text \<open>Raising the threshold keeps every flag that was set.\<close>

lemma recomputePhoneForPerson_mono:
  "t1 \<le> t2 \<Longrightarrow> recomputePhoneForPerson h t1 \<Longrightarrow> recomputePhoneForPerson h t2"
  by (cases h) (simp_all add: recomputePhoneForPerson_def)

lemma rawPhone_mono: "t1 \<le> t2 \<Longrightarrow> rawPhone t1 p = phone \<Longrightarrow> rawPhone t2 p = phone"
  by (auto simp add: rawPhone_eq list_ex_iff split: if_splits
      dest: recomputePhoneForPerson_mono)

lemma length_filter_mono:
  "(\<And>x. P x \<Longrightarrow> Q x) \<Longrightarrow> length (filter P xs) \<le> length (filter Q xs)"
  by (induction xs) auto

section \<open>A persistent change raises\<close>

text \<open>
  Claim C1 states that \<^verbatim>\<open>simulateDebounce\<close> raises no exception for any frame sequence
  and any valid parameter pair, also when a raw state change persists long enough to be
  committed. The code does raise there. With threshold 0.05 and duration 0.125 (3 frames),
  one frame on the rail followed by three frames off the rail reaches the commit branch
  at the fourth frame, where the assignment to the undeclared \<^verbatim>\<open>commitEvent\<close> raises.
\<close>

theorem commit_raises:
  "simulateDebounce [holdingFrame 0, releasedFrame 1, releasedFrame 2, releasedFrame 3]
     0.05 0.125 = Inl ReferenceError"
  by (simp add: model_defs example_defs)

text \<open>
  Claim C3 states that a flip lasting exactly \<open>minRunLength\<close> frames yields exactly one
  committed event at the frame where the run length reaches \<open>minRunLength\<close>, and that the
  scenario of section 8 yields one event \<^verbatim>\<open>compliant_start\<close> at frame 35. On that
  scenario \<open>minRunLength\<close> is 12 and the code returns nothing: it raises at frame 35, the
  frame of the commit, whereas the run over frames 0 to 34 returns, with no event. The
  label that the unreached \<^verbatim>\<open>events.push\<close> would have computed is the one the claim
  names.
\<close>

theorem scenario_raises_at_frame_35:
  "minFramesOf 0.5 = 12
   \<and> simulateDebounce scenario 0.05 0.5 = Inl ReferenceError
   \<and> (\<exists>r. simulateDebounce (butlast scenario) 0.05 0.5 = Inr r \<and> events r = [])
   \<and> determineEventType (non_compliant, no_phone) (compliant, no_phone) = ''compliant_start''"
proof -
  have "minFramesOf 0.5 = 12"
    by simp
  moreover have "determineEventType (non_compliant, no_phone) (compliant, no_phone) =
      ''compliant_start''"
    by (simp add: determineEventType_def)
  moreover have "simulateDebounce scenario 0.05 0.5 = Inl ReferenceError"
    by code_simp
  moreover have "\<exists>r. simulateDebounce (butlast scenario) 0.05 0.5 = Inr r \<and> events r = []"
  proof (cases "simulateDebounce (butlast scenario) 0.05 0.5")
    case (Inl e)
    have "simulateDebounce (butlast scenario) 0.05 0.5 \<noteq> Inl ReferenceError"
      by code_simp
    with Inl show ?thesis by (cases e) simp
  next
    case (Inr r)
    then show ?thesis using simulateDebounce_events by simp
  qed
  ultimately show ?thesis by simp
qed

section \<open>The axes of the stable state\<close>



section \<open>Transients\<close>

text \<open>
  Claim C4. Let the run over \<open>pre\<close> return with an established stable state \<open>s\<close>, the
  last frame of \<open>pre\<close> having the compliance category of \<open>s\<close> as its raw one. If the
  raw compliance category then takes one other value \<open>c\<close> for the frames of \<open>flip\<close>,
  fewer than \<open>minRunLength\<close> of them, and the next frame \<open>b\<close> has raw state \<open>s\<close>
  again, then the run over all these frames returns, its event list is that of the run
  over \<open>pre\<close> (no event is added), and every packet processed from \<open>flip\<close> and \<open>b\<close>
  reports the stable state \<open>s\<close>.
\<close>

theorem debounce_suppresses_transients:
  assumes "pre \<noteq> []"
    and "simulateDebounce pre t d = Inr r"
    and "committedState (last (packets r)) = Some s"
    and "s \<noteq> (unknown_compliance, unknown_phone)"
    and "fst (rawState t (last pre)) = fst s"
    and "list_all (\<lambda>p. fst (rawState t p) = c) flip"
    and "c \<noteq> fst s"
    and "int (length flip) < minFramesOf d"
    and "rawState t b = s"
  shows "\<exists>r' tail. simulateDebounce (pre @ flip @ [b]) t d = Inr r'
     \<and> events r' = events r
     \<and> totalCommits (stats r') = totalCommits (stats r)
     \<and> packets r' = packets r @ tail
     \<and> map committedState tail = replicate (length flip + 1) (Some s)"
proof -
  let ?m = "minFramesOf d"
  from assms(1,2) obtain st where
    run: "runLoop t d ?m pre initialState = (None, st)" and
    r: "packets r = processedPackets st" "events r = acc_events st"
       "totalCommits (stats r) = int (length (acc_events st))"
    by (auto simp add: simulateDebounce_Inr)
  from assms(1) have "pre = butlast pre @ [last pre]" by simp
  with run have run': "runLoop t d ?m (butlast pre @ [last pre]) initialState = (None, st)"
    by simp
  have stable: "stableState st = s"
    using runLoop_last[OF run'] assms(3) r(1) by simp
  have candidate: "pendingState st = None \<or> pendingState st = Some (rawState t (last pre))"
    using runLoop_last[OF run'] by simp
  have established: "stableState st \<noteq> (unknown_compliance, unknown_phone)"
    using stable assms(4) by simp
  have differs: "\<forall>p\<in>set flip. rawState t p \<noteq> stableState st"
    using assms(6,7) stable by (auto simp add: list_all_iff)
  have fresh: "\<forall>p\<in>set flip. pendingState st \<noteq> Some (rawState t p)"
    using candidate assms(5,6,7) by (auto simp add: list_all_iff)
  obtain st1 tail1 where
    flip: "runLoop t d ?m flip st = (None, st1)" and
    stable1: "stableState st1 = stableState st" and
    pushed1: "processedPackets st1 = processedPackets st @ tail1" and
    states1: "map committedState tail1 = replicate (length flip) (Some (stableState st))"
    using runLoop_flip[OF established differs fresh assms(8), of d] by auto
  obtain st2 where
    revert: "loopBody t d ?m b st1 = (None, st2)" and
    stable2: "stableState st2 = stableState st1" and
    pushed2: "processedPackets st2 = processedPackets st1 @ [processedPacket t d b st2]"
    using loopBody_same[of st1 t b d ?m] established stable1 stable assms(9) by auto
  have whole: "runLoop t d ?m (pre @ flip @ [b]) initialState = (None, st2)"
    using run flip revert by (simp add: runLoop_append)
  have ev: "acc_events st2 = acc_events st"
    using runLoop_acc_events[of t d ?m "flip @ [b]" st] flip revert
    by (simp add: runLoop_append)
  let ?r' = "\<lparr>packets = processedPackets st2, events = acc_events st2,
               stats = \<lparr>totalFrames = int (length (pre @ flip @ [b])),
                        compliantFrames = acc_compliantFrames st2,
                        nonCompliantFrames = acc_nonCompliantFrames st2,
                        phoneFrames = acc_phoneFrames st2,
                        totalCommits = int (length (acc_events st2))\<rparr>\<rparr>"
  have "simulateDebounce (pre @ flip @ [b]) t d = Inr ?r'"
    using whole by (simp add: simulateDebounce_Inr)
  moreover have "packets ?r' = packets r @ (tail1 @ [processedPacket t d b st2])"
    using pushed1 pushed2 r(1) by simp
  moreover have "map committedState (tail1 @ [processedPacket t d b st2]) =
      replicate (length flip + 1) (Some s)"
    using states1 stable stable1 stable2 by (simp add: replicate_append_same)
  moreover have "events ?r' = events r" "totalCommits (stats ?r') = totalCommits (stats r)"
    using ev r by simp_all
  ultimately show ?thesis by blast
qed

text \<open>
  A person on the rail, the same person with a hand near the ear (a phone candidate is
  pending), two frames off the rail against a run length of 3, and the person on the
  rail again.
\<close>

theorem debounce_suppresses_transients_witness:
  "rawState 0.05 (last [holdingFrame 0, exampleFrame 1 1 [examplePerson True 0.01]])
     = (compliant, phone)
   \<and> list_all (\<lambda>p. fst (rawState 0.05 p) = non_compliant) [releasedFrame 2, releasedFrame 3]
   \<and> int (length [releasedFrame 2, releasedFrame 3]) < minFramesOf 0.125
   \<and> rawState 0.05 (holdingFrame 4) = (compliant, no_phone)
   \<and> (\<exists>r r' tail.
        simulateDebounce [holdingFrame 0, exampleFrame 1 1 [examplePerson True 0.01]]
          0.05 0.125 = Inr r
        \<and> committedState (last (packets r)) = Some (compliant, no_phone)
        \<and> simulateDebounce
             ([holdingFrame 0, exampleFrame 1 1 [examplePerson True 0.01]]
              @ [releasedFrame 2, releasedFrame 3] @ [holdingFrame 4]) 0.05 0.125
           = Inr r'
        \<and> events r' = events r
        \<and> totalCommits (stats r') = totalCommits (stats r)
        \<and> packets r' = packets r @ tail
        \<and> map committedState tail =
            replicate (length [releasedFrame 2, releasedFrame 3] + 1)
              (Some (compliant, no_phone)))"
proof -
  let ?pre = "[holdingFrame 0, exampleFrame 1 1 [examplePerson True 0.01]]"
  let ?flip = "[releasedFrame 2, releasedFrame 3]"
  have nonempty: "?pre \<noteq> []"
    by simp
  obtain r where ret: "simulateDebounce ?pre 0.05 0.125 = Inr r"
    and stable: "committedState (last (packets r)) = Some (compliant, no_phone)"
    by (simp add: model_defs committedState_def example_defs)
  have established: "(compliant, no_phone) \<noteq> (unknown_compliance, unknown_phone)"
    by simp
  have before: "rawState 0.05 (last ?pre) = (compliant, phone)"
    by (simp add: model_defs example_defs)
  then have same: "fst (rawState 0.05 (last ?pre)) = fst (compliant, no_phone)"
    by simp
  have flipped: "list_all (\<lambda>p. fst (rawState 0.05 p) = non_compliant) ?flip"
    by (simp add: model_defs example_defs)
  have other: "non_compliant \<noteq> fst (compliant, no_phone)"
    by simp
  have short: "int (length ?flip) < minFramesOf 0.125"
    by simp
  have reverted: "rawState 0.05 (holdingFrame 4) = (compliant, no_phone)"
    by (simp add: model_defs example_defs)
  from debounce_suppresses_transients
    [OF nonempty ret stable established same flipped other short reverted]
  show ?thesis
    using ret stable before flipped short reverted by blast
qed

section \<open>Cold start\<close>

text \<open>
  Claim C5. From the start of a run the stable state is (unknown, unknown) as long as
  the raw compliance category of every frame is unknown. The first frame \<open>f\<close> whose raw
  compliance category is not unknown sets the stable state to the raw state of \<open>f\<close> at
  once: the packet processed from \<open>f\<close> reports that state with no pending candidate and
  no time in pending. The run up to \<open>f\<close> returns and has emitted no event.
\<close>

theorem cold_start_has_no_debounce:
  assumes "list_all (\<lambda>p. fst (rawState t p) = unknown_compliance) pre"
    and "fst (rawState t f) \<noteq> unknown_compliance"
  shows "\<exists>r. simulateDebounce (pre @ [f]) t d = Inr r
     \<and> events r = []
     \<and> totalCommits (stats r) = 0
     \<and> map state_machine (packets r) =
         replicate (length pre)
           (Some \<lparr>current_state = (unknown_compliance, unknown_phone), pending_state = None,
                  time_in_pending = 0, debounce_threshold = d\<rparr>)
         @ [Some \<lparr>current_state = rawState t f, pending_state = None,
                   time_in_pending = 0, debounce_threshold = d\<rparr>]"
proof -
  let ?m = "minFramesOf d"
  have init: "stableState initialState = (unknown_compliance, unknown_phone)"
    "pendingState initialState = None" "pendingFrameCount initialState = 0"
    "processedPackets initialState = []" "acc_events initialState = []"
    by (simp_all add: initialState_def)
  obtain st tail where
    run: "runLoop t d ?m pre initialState = (None, st)" and
    stable: "stableState st = (unknown_compliance, unknown_phone)" and
    pend: "pendingState st = None" "pendingFrameCount st = 0" and
    pushed: "processedPackets st = tail" and
    states: "map state_machine tail = replicate (length pre)
          (Some \<lparr>current_state = (unknown_compliance, unknown_phone), pending_state = None,
                 time_in_pending = 0, debounce_threshold = d\<rparr>)"
    using runLoop_cold_prefix[OF init(1) assms(1), of d ?m] init by auto
  obtain st1 where
    step: "loopBody t d ?m f st = (None, st1)" and
    stable1: "stableState st1 = rawState t f" and
    pend1: "pendingState st1 = None" "pendingFrameCount st1 = 0" and
    pushed1: "processedPackets st1 = processedPackets st @ [processedPacket t d f st1]"
    using loopBody_cold[OF stable, of t d ?m f] assms(2) pend by auto
  have whole: "runLoop t d ?m (pre @ [f]) initialState = (None, st1)"
    using run step by (simp add: runLoop_append)
  have ev: "acc_events st1 = []"
    using runLoop_acc_events[of t d ?m "pre @ [f]" initialState] whole init(5) by simp
  let ?r = "\<lparr>packets = processedPackets st1, events = acc_events st1,
              stats = \<lparr>totalFrames = int (length (pre @ [f])),
                       compliantFrames = acc_compliantFrames st1,
                       nonCompliantFrames = acc_nonCompliantFrames st1,
                       phoneFrames = acc_phoneFrames st1,
                       totalCommits = int (length (acc_events st1))\<rparr>\<rparr>"
  have "simulateDebounce (pre @ [f]) t d = Inr ?r"
    using whole by (simp add: simulateDebounce_Inr)
  moreover have "events ?r = []" "totalCommits (stats ?r) = 0"
    using ev by simp_all
  moreover have "map state_machine (packets ?r) =
         replicate (length pre)
           (Some \<lparr>current_state = (unknown_compliance, unknown_phone), pending_state = None,
                  time_in_pending = 0, debounce_threshold = d\<rparr>)
         @ [Some \<lparr>current_state = rawState t f, pending_state = None,
                   time_in_pending = 0, debounce_threshold = d\<rparr>]"
    using pushed pushed1 states stable1 pend1 by simp
  ultimately show ?thesis by blast
qed

text \<open>Two frames without persons, then a person on the rail.\<close>

theorem cold_start_has_no_debounce_witness:
  "list_all (\<lambda>p. fst (rawState 0.05 p) = unknown_compliance) [emptyFrame 0, emptyFrame 1]
   \<and> fst (rawState 0.05 (holdingFrame 2)) \<noteq> unknown_compliance
   \<and> (\<exists>r. simulateDebounce ([emptyFrame 0, emptyFrame 1] @ [holdingFrame 2]) 0.05 0.5 = Inr r
        \<and> events r = []
        \<and> totalCommits (stats r) = 0
        \<and> map state_machine (packets r) =
            [Some \<lparr>current_state = (unknown_compliance, unknown_phone), pending_state = None,
                   time_in_pending = 0, debounce_threshold = 0.5\<rparr>,
             Some \<lparr>current_state = (unknown_compliance, unknown_phone), pending_state = None,
                   time_in_pending = 0, debounce_threshold = 0.5\<rparr>,
             Some \<lparr>current_state = (compliant, no_phone), pending_state = None,
                   time_in_pending = 0, debounce_threshold = 0.5\<rparr>])"
proof -
  have a: "list_all (\<lambda>p. fst (rawState 0.05 p) = unknown_compliance)
      [emptyFrame 0, emptyFrame 1]"
    by (simp add: model_defs example_defs)
  have b: "fst (rawState 0.05 (holdingFrame 2)) \<noteq> unknown_compliance"
    by (simp add: model_defs example_defs)
  have c: "rawState 0.05 (holdingFrame 2) = (compliant, no_phone)"
    by (simp add: model_defs example_defs)
  show ?thesis
    using a b c cold_start_has_no_debounce[OF a b, of "0.5"] by simp
qed

section \<open>Raw signal derivation\<close>

text \<open>
  Claim C6, as amended. For every frame and threshold: the phone flag of a person with
  a measurement is \<open>min_distance < threshold\<close>, strictly (a distance equal to the
  threshold is not flagged); the recomputed persons carry exactly these flags and their
  rail contact unchanged; the recomputed \<^verbatim>\<open>phone_count\<close> is the number of flagged
  persons; the raw compliance category is unknown when \<^verbatim>\<open>metrics.total_persons\<close> is 0
  and otherwise compliant if and only if some person has rail contact; the raw phone
  category is phone if and only if some person is flagged. The number of persons is
  read from the metrics, not from the list: only for a frame whose
  \<^verbatim>\<open>metrics.total_persons\<close> is the length of its list is the category unknown exactly
  when the list is empty.
\<close>

theorem raw_signal_derivation:
  "recomputePhoneForPerson (Some h) t = (min_distance h < t)
   \<and> \<not> recomputePhoneForPerson (Some (h\<lparr>min_distance := t\<rparr>)) t
   \<and> map usingPhone (recomputedPersons t p) =
       map (\<lambda>x. recomputePhoneForPerson (phone_heuristic x) t) (persons p)
   \<and> map holdingRail (recomputedPersons t p) = map holdingRail (persons p)
   \<and> phone_count (metrics (processedPacket t d p st)) =
       int (length (filter (\<lambda>x. recomputePhoneForPerson (phone_heuristic x) t) (persons p)))
   \<and> rawCompliance t p =
       (if total_persons (metrics p) = 0 then unknown_compliance
        else if list_ex holdingRail (persons p) then compliant else non_compliant)
   \<and> (total_persons (metrics p) = int (length (persons p)) \<longrightarrow>
        (rawCompliance t p = unknown_compliance \<longleftrightarrow> persons p = []))
   \<and> rawPhone t p =
       (if list_ex (\<lambda>x. recomputePhoneForPerson (phone_heuristic x) t) (persons p)
        then phone else no_phone)"
proof (intro conjI impI)
  show "recomputePhoneForPerson (Some h) t = (min_distance h < t)"
    by (simp add: recomputePhoneForPerson_def)
  show "\<not> recomputePhoneForPerson (Some (h\<lparr>min_distance := t\<rparr>)) t"
    by (simp add: recomputePhoneForPerson_def)
  show "map usingPhone (recomputedPersons t p) =
       map (\<lambda>x. recomputePhoneForPerson (phone_heuristic x) t) (persons p)"
    by (simp add: recomputedPersons_def usingPhone_recomputePerson)
  show "map holdingRail (recomputedPersons t p) = map holdingRail (persons p)"
    by (simp add: recomputedPersons_def holdingRail_recomputePerson)
  show "phone_count (metrics (processedPacket t d p st)) =
       int (length (filter (\<lambda>x. recomputePhoneForPerson (phone_heuristic x) t) (persons p)))"
    by (simp add: processedPacket_def phoneCount_recomputed)
  show "rawCompliance t p =
       (if total_persons (metrics p) = 0 then unknown_compliance
        else if list_ex holdingRail (persons p) then compliant else non_compliant)"
    by (rule rawCompliance_eq)
  show "rawPhone t p =
       (if list_ex (\<lambda>x. recomputePhoneForPerson (phone_heuristic x) t) (persons p)
        then phone else no_phone)"
    by (rule rawPhone_eq)
next
  assume "total_persons (metrics p) = int (length (persons p))"
  then show "rawCompliance t p = unknown_compliance \<longleftrightarrow> persons p = []"
    by (simp add: rawCompliance_eq)
qed

text \<open>
  The claim as stated fails on a frame whose metrics count zero persons while its list
  holds a person with rail contact: the raw compliance category is unknown, not compliant.
\<close>

theorem zero_persons_is_read_from_metrics:
  "persons inconsistentFrame \<noteq> []
   \<and> list_ex holdingRail (persons inconsistentFrame)
   \<and> rawCompliance 0.05 inconsistentFrame = unknown_compliance"
  by (simp add: model_defs example_defs inconsistentFrame_def)

text \<open>The amended statement on a frame with one person and on a frame with none.\<close>

theorem raw_signal_derivation_witness:
  "total_persons (metrics (holdingFrame 0)) = int (length (persons (holdingFrame 0)))
   \<and> rawCompliance 0.05 (holdingFrame 0) = compliant
   \<and> persons (holdingFrame 0) \<noteq> []
   \<and> total_persons (metrics (emptyFrame 1)) = int (length (persons (emptyFrame 1)))
   \<and> rawCompliance 0.05 (emptyFrame 1) = unknown_compliance
   \<and> persons (emptyFrame 1) = []"
proof -
  have a: "total_persons (metrics (holdingFrame 0)) = int (length (persons (holdingFrame 0)))"
    "total_persons (metrics (emptyFrame 1)) = int (length (persons (emptyFrame 1)))"
    by (simp_all add: example_defs)
  have b: "persons (holdingFrame 0) \<noteq> []" "persons (emptyFrame 1) = []"
    "list_ex holdingRail (persons (holdingFrame 0))"
    by (simp_all add: example_defs holdingRail_def)
  show ?thesis
    using a b
      raw_signal_derivation
        [of "\<lparr>min_distance = 0.2, threshold = 0.05, is_phone_talking = False\<rparr>"
          "0.05" "holdingFrame 0" "0.5" initialState]
      raw_signal_derivation
        [of "\<lparr>min_distance = 0.2, threshold = 0.05, is_phone_talking = False\<rparr>"
          "0.05" "emptyFrame 1" "0.5" initialState]
    by simp
qed

section \<open>Monotonicity in the phone threshold\<close>

text \<open>
  Claim C7. For a fixed frame sequence and a fixed duration, and thresholds
  \<open>t1 \<le> t2\<close>: the \<^verbatim>\<open>phoneFrames\<close> count of the statistics returned with \<open>t2\<close> is at
  least the count returned with \<open>t1\<close>.
\<close>

theorem phoneFrames_monotone_in_threshold:
  assumes "t1 \<le> t2"
    and "simulateDebounce pkts t1 d = Inr r1"
    and "simulateDebounce pkts t2 d = Inr r2"
  shows "phoneFrames (stats r1) \<le> phoneFrames (stats r2)"
proof -
  have "length (filter (\<lambda>p. rawPhone t1 p = phone) pkts)
      \<le> length (filter (\<lambda>p. rawPhone t2 p = phone) pkts)"
    using assms(1) by (intro length_filter_mono) (rule rawPhone_mono)
  then show ?thesis
    using simulateDebounce_phoneFrames[OF assms(2)] simulateDebounce_phoneFrames[OF assms(3)]
    by simp
qed

text \<open>A distance of 0.07 is flagged at threshold 0.1 and not at 0.05.\<close>

theorem phoneFrames_monotone_in_threshold_witness:
  "(0.05::real) \<le> 0.1
   \<and> (\<exists>r1 r2. simulateDebounce [nearEarFrame] 0.05 0.5 = Inr r1
        \<and> simulateDebounce [nearEarFrame] 0.1 0.5 = Inr r2
        \<and> phoneFrames (stats r1) = 0 \<and> phoneFrames (stats r2) = 1
        \<and> phoneFrames (stats r1) \<le> phoneFrames (stats r2))"
proof -
  have a: "(0.05::real) \<le> 0.1" by simp
  obtain r1 where b: "simulateDebounce [nearEarFrame] 0.05 0.5 = Inr r1"
    and b': "phoneFrames (stats r1) = 0"
    by (simp add: model_defs example_defs nearEarFrame_def)
  obtain r2 where c: "simulateDebounce [nearEarFrame] 0.1 0.5 = Inr r2"
    and c': "phoneFrames (stats r2) = 1"
    by (simp add: model_defs example_defs nearEarFrame_def)
  show ?thesis
    using a b b' c c' phoneFrames_monotone_in_threshold[OF a b c] by blast
qed

section \<open>Empty input\<close>

text \<open>
  Claim C8. Applied to an empty frame sequence, whatever the two parameters are,
  \<^verbatim>\<open>simulateDebounce\<close> returns (it does not raise) an empty processed sequence, an
  empty event list and statistics whose five counts are all 0.
\<close>

theorem simulateDebounce_empty:
  "simulateDebounce [] phoneThreshold debounceDuration =
     Inr \<lparr>packets = [], events = [],
          stats = \<lparr>totalFrames = 0, compliantFrames = 0, nonCompliantFrames = 0,
                   phoneFrames = 0, totalCommits = 0\<rparr>\<rparr>"
  by (simp add: simulateDebounce_def)

section \<open>Comparison deltas\<close>

text \<open>
  Claim C9. For every pair of statistics, \<^verbatim>\<open>compareParameters\<close> returns
  \<open>phoneFramesChange = tuned.phoneFrames - baseline.phoneFrames\<close> and
  \<open>eventsChange = tuned.totalCommits - baseline.totalCommits\<close>, so that swapping the
  two arguments negates each delta.
\<close>

theorem compareParameters_delta:
  "phoneFramesChange (delta (compareParameters b t)) = phoneFrames t - phoneFrames b
   \<and> eventsChange (delta (compareParameters b t)) = totalCommits t - totalCommits b
   \<and> phoneFramesChange (delta (compareParameters b t)) =
       - phoneFramesChange (delta (compareParameters t b))
   \<and> eventsChange (delta (compareParameters b t)) =
       - eventsChange (delta (compareParameters t b))"
  by (simp add: compareParameters_def)

section \<open>Persons without a phone measurement\<close>

text \<open>
  Claim C10. For every threshold \<^verbatim>\<open>recomputePhoneForPerson\<close> returns false when the
  phone heuristic is null. Such a person contributes nothing: dropping the persons
  without a measurement from a frame changes neither the recomputed phone count nor the
  raw phone category, and a frame holding only such persons has phone count 0 and raw
  category \<^verbatim>\<open>no_phone\<close>. In a run that returns, \<^verbatim>\<open>phoneFrames\<close> counts exactly the frames
  in which some person has a measurement below the threshold; it is 0 when no person of
  any frame has a measurement.
\<close>

theorem unmeasured_person_is_never_flagged:
  "recomputePhoneForPerson None t = False
   \<and> phoneCount (recomputedPersons t p) =
       phoneCount (recomputedPersons t
         (p\<lparr>persons := filter (\<lambda>x. phone_heuristic x \<noteq> None) (persons p)\<rparr>))
   \<and> rawPhone t p =
       rawPhone t (p\<lparr>persons := filter (\<lambda>x. phone_heuristic x \<noteq> None) (persons p)\<rparr>)
   \<and> (list_all (\<lambda>x. phone_heuristic x = None) (persons p) \<longrightarrow>
        phone_count (metrics (processedPacket t d p st)) = 0 \<and> rawPhone t p = no_phone)
   \<and> (simulateDebounce pkts t d = Inr r \<longrightarrow>
        phoneFrames (stats r) =
          int (length (filter
            (\<lambda>p. list_ex (\<lambda>x. case phone_heuristic x of
                                None \<Rightarrow> False
                              | Some h \<Rightarrow> min_distance h < t) (persons p)) pkts)))
   \<and> (simulateDebounce pkts t d = Inr r
        \<and> list_all (\<lambda>p. list_all (\<lambda>x. phone_heuristic x = None) (persons p)) pkts \<longrightarrow>
        phoneFrames (stats r) = 0)"
proof (intro conjI impI)
  let ?flag = "\<lambda>x. recomputePhoneForPerson (phone_heuristic x) t"
  let ?measured = "\<lambda>x. phone_heuristic x \<noteq> None"
  have drop: "filter ?flag (filter ?measured xs) = filter ?flag xs" for xs
    by (induction xs) (auto simp add: recomputePhoneForPerson_def)
  have ex: "list_ex ?flag (filter ?measured xs) = list_ex ?flag xs" for xs
    by (induction xs) (auto simp add: recomputePhoneForPerson_def)
  show "recomputePhoneForPerson None t = False"
    by (simp add: recomputePhoneForPerson_def)
  have sel: "persons (p\<lparr>persons := filter ?measured (persons p)\<rparr>) =
      filter ?measured (persons p)"
    by simp
  show "phoneCount (recomputedPersons t p) =
       phoneCount (recomputedPersons t (p\<lparr>persons := filter ?measured (persons p)\<rparr>))"
    by (simp only: phoneCount_recomputed sel drop)
  show "rawPhone t p = rawPhone t (p\<lparr>persons := filter ?measured (persons p)\<rparr>)"
    by (simp only: rawPhone_eq sel ex)
next
  assume none: "list_all (\<lambda>x. phone_heuristic x = None) (persons p)"
  then have "filter (\<lambda>x. recomputePhoneForPerson (phone_heuristic x) t) (persons p) = []"
    by (auto simp add: list_all_iff filter_empty_conv recomputePhoneForPerson_def)
  then show "phone_count (metrics (processedPacket t d p st)) = 0"
    by (simp add: processedPacket_def phoneCount_recomputed)
  from none show "rawPhone t p = no_phone"
    by (auto simp add: rawPhone_eq list_all_iff list_ex_iff recomputePhoneForPerson_def)
next
  assume "simulateDebounce pkts t d = Inr r"
  then show "phoneFrames (stats r) =
          int (length (filter
            (\<lambda>p. list_ex (\<lambda>x. case phone_heuristic x of
                                None \<Rightarrow> False
                              | Some h \<Rightarrow> min_distance h < t) (persons p)) pkts))"
    by (simp add: simulateDebounce_phoneFrames rawPhone_eq recomputePhoneForPerson_def)
next
  assume "simulateDebounce pkts t d = Inr r
        \<and> list_all (\<lambda>p. list_all (\<lambda>x. phone_heuristic x = None) (persons p)) pkts"
  then have ret: "simulateDebounce pkts t d = Inr r"
    and none: "\<forall>p\<in>set pkts. \<forall>x\<in>set (persons p). phone_heuristic x = None"
    by (simp_all add: list_all_iff)
  have "filter (\<lambda>p. rawPhone t p = phone) pkts = []"
    using none
    by (auto simp add: filter_empty_conv rawPhone_eq list_ex_iff recomputePhoneForPerson_def)
  then show "phoneFrames (stats r) = 0"
    using simulateDebounce_phoneFrames[OF ret] by simp
qed

text \<open>A frame with one person without measurement, at the generous threshold 1.\<close>

theorem unmeasured_person_is_never_flagged_witness:
  "list_all (\<lambda>x. phone_heuristic x = None) (persons unmeasuredFrame)
   \<and> rawPhone 1 unmeasuredFrame = no_phone
   \<and> phone_count (metrics (processedPacket 1 0.5 unmeasuredFrame initialState)) = 0
   \<and> (\<exists>r. simulateDebounce [unmeasuredFrame] 1 0.5 = Inr r \<and> phoneFrames (stats r) = 0)"
proof -
  have a: "list_all (\<lambda>x. phone_heuristic x = None) (persons unmeasuredFrame)"
    by (simp add: example_defs unmeasuredFrame_def unmeasuredPerson_def)
  obtain r where b: "simulateDebounce [unmeasuredFrame] 1 0.5 = Inr r"
    by (simp add: model_defs example_defs unmeasuredFrame_def unmeasuredPerson_def)
  have c: "list_all (\<lambda>p. list_all (\<lambda>x. phone_heuristic x = None) (persons p))
      [unmeasuredFrame]"
    by (simp add: example_defs unmeasuredFrame_def unmeasuredPerson_def)
  note claim = unmeasured_person_is_never_flagged[of 1 unmeasuredFrame "0.5" initialState
        "[unmeasuredFrame]" r]
  from claim a have "rawPhone 1 unmeasuredFrame = no_phone
      \<and> phone_count (metrics (processedPacket 1 0.5 unmeasuredFrame initialState)) = 0"
    by blast
  moreover from claim b c have "phoneFrames (stats r) = 0"
    by blast
  ultimately show ?thesis
    using a b by blast
qed

end
